theory Spec2Isabelle
  imports Main
begin

section \<open>Tensors\<close>

text \<open>
  Tensor elements are floating-point numbers in the source. Their arithmetic is kept
  uninterpreted: an element is a term over the operations the MLP block applies, so that
  no law of real arithmetic is assumed for it. \<open>Dot r w\<close> is the inner product
  of an input row with a weight row, as a linear layer computes it.
\<close>

datatype scalar =
    Num int
  | Add scalar scalar
  | Mul scalar scalar
  | Gelu scalar
  | Dot "scalar list" "scalar list"

text \<open>
  A tensor of shape \<open>lead @ [width]\<close> is the row-major list of its rows along the
  last axis. The hidden state has \<open>lead = [s, b]\<close>. A 1-D bias is a plain list.
\<close>

record tensor =
  lead :: "nat list"
  width :: nat
  rows :: "scalar list list"

definition shape :: "tensor \<Rightarrow> nat list" where
  "shape t = lead t @ [width t]"

definition wf_tensor :: "tensor \<Rightarrow> bool" where
  "wf_tensor t = (length (rows t) = prod_list (lead t) \<and> list_all (\<lambda>r. length r = width t) (rows t))"

datatype error = AssertionError | RuntimeError | IndexError | TypeError | ValueError | NotModelled

definition map_tensor :: "(scalar \<Rightarrow> scalar) \<Rightarrow> tensor \<Rightarrow> tensor" where
  "map_tensor f x = x\<lparr>rows := map (map f) (rows x)\<rparr>"

text \<open>
  torch broadcasting along the last axis: two sizes are compatible when they are equal or
  one of them is 1; the result has the other size.
\<close>

definition broadcast_width :: "nat \<Rightarrow> nat \<Rightarrow> nat option" where
  "broadcast_width w v =
     (if w = v then Some w else if v = 1 then Some w else if w = 1 then Some v else None)"

definition broadcast_row :: "(scalar \<Rightarrow> scalar \<Rightarrow> scalar) \<Rightarrow> scalar list \<Rightarrow> scalar list \<Rightarrow> scalar list" where
  "broadcast_row f r s =
     (if length r = length s then map2 f r s
      else case s of [c] \<Rightarrow> map (\<lambda>a. f a c) r
           | _ \<Rightarrow> (case r of [a] \<Rightarrow> map (f a) s | _ \<Rightarrow> []))"

text \<open>\<open>x + b\<close> of torch, for a tensor \<open>x\<close> and a 1-D bias \<open>b\<close>.\<close>

definition tensor_add :: "tensor \<Rightarrow> scalar list \<Rightarrow> error + tensor" where
  "tensor_add x b =
     (case broadcast_width (width x) (length b) of
        None \<Rightarrow> Inl RuntimeError
      | Some w \<Rightarrow> Inr \<lparr>lead = lead x, width = w, rows = map (\<lambda>r. broadcast_row Add r b) (rows x)\<rparr>)"

text \<open>
  \<open>a * b\<close> of torch, for two tensors with the same leading dimensions (the MLP only
  multiplies the two chunks of one tensor). Broadcasting of leading dimensions is outside
  the model and flagged as such.
\<close>

definition tensor_mul :: "tensor \<Rightarrow> tensor \<Rightarrow> error + tensor" where
  "tensor_mul a b =
     (if lead a \<noteq> lead b then Inl NotModelled
      else case broadcast_width (width a) (width b) of
             None \<Rightarrow> Inl RuntimeError
           | Some w \<Rightarrow> Inr \<lparr>lead = lead a, width = w,
                              rows = map2 (broadcast_row Mul) (rows a) (rows b)\<rparr>)"

text \<open>
  \<open>torch.chunk(x, chunks, dim=-1)\<close>: pieces of \<open>split_size = ceil(n / chunks)\<close>
  columns, the last one shorter; fewer than \<open>chunks\<close> pieces when the axis is too
  short; \<open>chunks\<close> empty pieces when the axis is empty.
\<close>

definition chunk :: "tensor \<Rightarrow> nat \<Rightarrow> error + tensor list" where
  "chunk x chunks =
     (if chunks = 0 then Inl RuntimeError
      else let n = width x; split_size = (n + chunks - 1) div chunks in
        if split_size = 0 then Inr (replicate chunks (x\<lparr>rows := map (\<lambda>r. []) (rows x)\<rparr>))
        else Inr (map (\<lambda>i. x\<lparr>width := min split_size (n - i * split_size),
                                rows := map (\<lambda>r. take split_size (drop (i * split_size) r)) (rows x)\<rparr>)
                      [0..<(n + split_size - 1) div split_size]))"

section \<open>Function objects\<close>

text \<open>
  The Python function objects that can be bound to the MLP's \<open>activation_func\<close>:
  \<open>F.gelu\<close> of torch, another elementwise function (the spec's nonlinearity stage
  applies the activation elementwise), or the closure \<open>glu\<close> that
  \<open>MLP.__init__\<close> creates, holding the configured activation function it reads.
  Python compares function objects by identity, so \<open>f == F.gelu\<close> holds for
  \<open>F_gelu\<close> and for no other value of the type.
\<close>

datatype func =
    F_gelu
  | Elementwise "scalar \<Rightarrow> scalar"
  | Glu func

text \<open>
  The closure of the source:
  \<^verbatim>\<open>
  def glu(x):
      x = torch.chunk(x, 2, dim=-1)
      return self.config.activation_func(x[0]) * x[1]
  \<close>
  with the call of the configured activation function passed in.
\<close>

definition glu :: "(tensor \<Rightarrow> error + tensor) \<Rightarrow> tensor \<Rightarrow> error + tensor" where
  "glu activation x =
     (case chunk x 2 of
        Inl e \<Rightarrow> Inl e
      | Inr xs \<Rightarrow>
          (case xs of
             x0 # x1 # _ \<Rightarrow> (case activation x0 of Inl e \<Rightarrow> Inl e | Inr a \<Rightarrow> tensor_mul a x1)
           | _ \<Rightarrow> Inl IndexError))"

primrec call :: "func \<Rightarrow> tensor \<Rightarrow> error + tensor" where
  "call F_gelu = (\<lambda>x. Inr (map_tensor Gelu x))"
| "call (Elementwise f) = (\<lambda>x. Inr (map_tensor f x))"
| "call (Glu act) = glu (call act)"

text \<open>\<open>f == F.gelu\<close>, decided on the function object.\<close>

primrec is_F_gelu :: "func \<Rightarrow> bool" where
  "is_F_gelu F_gelu = True"
| "is_F_gelu (Elementwise f) = False"
| "is_F_gelu (Glu act) = False"

primrec is_elementwise :: "func \<Rightarrow> bool" where
  "is_elementwise F_gelu = True"
| "is_elementwise (Elementwise f) = True"
| "is_elementwise (Glu act) = False"

section \<open>Configuration\<close>

text \<open>
  Modelled from the spec: \<open>TransformerConfig\<close> is not among the sources; the record
  has the fields \<open>mlp.py\<close> reads. An initialisation method gives the initial weight
  at each position of a weight matrix.
\<close>

record TransformerConfig =
  hidden_size :: nat
  ffn_hidden_size :: nat
  gated_linear_unit :: bool
  add_bias_linear :: bool
  activation_func :: func
  init_method :: "nat \<Rightarrow> nat \<Rightarrow> scalar"
  output_layer_init_method :: "nat \<Rightarrow> nat \<Rightarrow> scalar"
  bias_gelu_fusion :: bool
  recompute_granularity :: "string option"
  recompute_non_linear_layer_in_mlp :: bool

section \<open>Collaborators\<close>

text \<open>
  Modelled from the spec: \<open>TEColumnParallelLinear\<close> and \<open>TERowParallelLinear\<close>
  are not among the sources. A layer is built from the input width, the output width,
  whether it holds a bias, whether bias addition is deferred, and the initialisation
  method; its forward maps a tensor whose last axis has the input width to one with the
  output width and returns the bias apart when it holds one and addition is deferred.
  A width mismatch is an error of the layer. The projection is that of the whole weight
  matrix: how it is partitioned over workers and reduced is the layer's own concern.
\<close>

record parallel_linear =
  input_size :: nat
  output_size :: nat
  weight :: "scalar list list"
  bias :: "scalar list option"
  skip_bias_add :: bool

definition TEColumnParallelLinear ::
    "nat \<Rightarrow> nat \<Rightarrow> TransformerConfig \<Rightarrow> (nat \<Rightarrow> nat \<Rightarrow> scalar) \<Rightarrow> bool \<Rightarrow> bool \<Rightarrow> parallel_linear" where
  "TEColumnParallelLinear inp outp cfg init has_bias skip =
     \<lparr>input_size = inp, output_size = outp,
      weight = map (\<lambda>j. map (init j) [0..<inp]) [0..<outp],
      bias = (if has_bias then Some (replicate outp (Num 0)) else None),
      skip_bias_add = skip\<rparr>"

definition TERowParallelLinear ::
    "nat \<Rightarrow> nat \<Rightarrow> TransformerConfig \<Rightarrow> (nat \<Rightarrow> nat \<Rightarrow> scalar) \<Rightarrow> bool \<Rightarrow> bool \<Rightarrow> parallel_linear" where
  "TERowParallelLinear inp outp cfg init has_bias skip =
     \<lparr>input_size = inp, output_size = outp,
      weight = map (\<lambda>j. map (init j) [0..<inp]) [0..<outp],
      bias = (if has_bias then Some (replicate outp (Num 0)) else None),
      skip_bias_add = skip\<rparr>"

definition linear_forward :: "parallel_linear \<Rightarrow> tensor \<Rightarrow> error + (tensor \<times> scalar list option)" where
  "linear_forward l x =
     (if width x \<noteq> input_size l then Inl RuntimeError
      else let out = \<lparr>lead = lead x, width = output_size l,
                       rows = map (\<lambda>r. map (Dot r) (weight l)) (rows x)\<rparr> in
        if skip_bias_add l then Inr (out, bias l)
        else (case bias l of
                None \<Rightarrow> Inr (out, None)
              | Some b \<Rightarrow> (case tensor_add out b of Inl e \<Rightarrow> Inl e | Inr y \<Rightarrow> Inr (y, None))))"

text \<open>
  Modelled from the spec: \<open>bias_gelu_impl\<close> is not among the sources. The fused
  kernel takes a tensor and a bias and returns the activation of their sum, for the one
  activation function it supports. A missing bias is a type error of the call.
\<close>

definition bias_gelu_impl :: "tensor \<Rightarrow> scalar list option \<Rightarrow> error + tensor" where
  "bias_gelu_impl x bias_opt =
     (case bias_opt of
        None \<Rightarrow> Inl TypeError
      | Some b \<Rightarrow> (case tensor_add x b of Inl e \<Rightarrow> Inl e | Inr y \<Rightarrow> Inr (map_tensor Gelu y)))"

text \<open>
  Modelled from the spec: \<open>tensor_parallel.checkpoint\<close> is not among the sources.
  It runs the function on the arguments and returns results of the function's own arity;
  the wrapped region is one whose activations are not retained and that is re-executed in
  the backward pass. A computation returns its result with the list of the regions so
  registered, outermost first; a function object is passed as its name and its behaviour.
\<close>

type_synonym 'r traced = "(error + 'r) \<times> string list"

definition checkpoint :: "string \<times> ('x \<Rightarrow> 'r traced) \<Rightarrow> bool \<Rightarrow> 'x \<Rightarrow> 'r traced" where
  "checkpoint function distribute_saved_activations args =
     (case snd function args of
        (Inl e, regions) \<Rightarrow> (Inl e, regions)
      | (Inr results, regions) \<Rightarrow> (Inr results, fst function # regions))"

section \<open>The MLP block\<close>

text \<open>What a Python call returns: a tensor, \<open>None\<close>, or a tuple.\<close>

datatype pyval = PyNone | PyTensor tensor | PyTuple "pyval list"

definition tensor_1d :: "scalar list \<Rightarrow> tensor" where
  "tensor_1d b = \<lparr>lead = [], width = length b, rows = [b]\<rparr>"

definition py_opt :: "scalar list option \<Rightarrow> pyval" where
  "py_opt b = (case b of None \<Rightarrow> PyNone | Some v \<Rightarrow> PyTensor (tensor_1d v))"

record MLP =
  config :: TransformerConfig
  linear_fc1 :: parallel_linear
  activation_func :: func
  linear_fc2 :: parallel_linear
  checkpoint_mlp :: bool
  recompute_non_linear_layer_in_mlp :: bool

text \<open>\<open>MLP.__init__\<close>.\<close>

definition MLP_init :: "TransformerConfig \<Rightarrow> MLP" where
  "MLP_init cfg =
     (let ffn = ffn_hidden_size cfg;
          ffn = (if gated_linear_unit cfg then ffn * 2 else ffn)
      in \<lparr>config = cfg,
          linear_fc1 = TEColumnParallelLinear (hidden_size cfg) ffn cfg (init_method cfg)
                         (add_bias_linear cfg) True,
          activation_func = (if gated_linear_unit cfg
                             then Glu (TransformerConfig.activation_func cfg)
                             else TransformerConfig.activation_func cfg),
          linear_fc2 = TERowParallelLinear (ffn_hidden_size cfg) (hidden_size cfg) cfg
                         (output_layer_init_method cfg) (add_bias_linear cfg) True,
          checkpoint_mlp = (recompute_granularity cfg
                              \<in> set [Some ''selective_mlp_only'', Some ''selective_both'']),
          recompute_non_linear_layer_in_mlp =
            TransformerConfig.recompute_non_linear_layer_in_mlp cfg\<rparr>)"

text \<open>
  The source's names with a leading underscore are written with \<open>u_\<close>.
  \<open>_apply_non_linear\<close>, the closure of \<open>_forward\<close>:
\<close>

definition u_apply_non_linear :: "MLP \<Rightarrow> tensor \<times> scalar list option \<Rightarrow> error + tensor" where
  "u_apply_non_linear self args =
     (case args of (intermediate_parallel, bias_parallel) \<Rightarrow>
        if bias_gelu_fusion (config self) then
          if \<not> add_bias_linear (config self) then Inl AssertionError
          else if \<not> is_F_gelu (activation_func self) then Inl AssertionError
          else bias_gelu_impl intermediate_parallel bias_parallel
        else
          (case (case bias_parallel of
                   None \<Rightarrow> Inr intermediate_parallel
                 | Some b \<Rightarrow> tensor_add intermediate_parallel b) of
             Inl e \<Rightarrow> Inl e
           | Inr intermediate_parallel' \<Rightarrow> call (activation_func self) intermediate_parallel'))"

text \<open>\<open>MLP._forward\<close>.\<close>

definition u_forward :: "MLP \<Rightarrow> tensor \<Rightarrow> pyval traced" where
  "u_forward self hidden_states =
     (case linear_forward (linear_fc1 self) hidden_states of
        Inl e \<Rightarrow> (Inl e, [])
      | Inr (intermediate_parallel, bias_parallel) \<Rightarrow>
          (case (if recompute_non_linear_layer_in_mlp self
                 then checkpoint (''_apply_non_linear'', \<lambda>a. (u_apply_non_linear self a, []))
                        False (intermediate_parallel, bias_parallel)
                 else (u_apply_non_linear self (intermediate_parallel, bias_parallel), [])) of
             (Inl e, regions) \<Rightarrow> (Inl e, regions)
           | (Inr intermediate_parallel', regions) \<Rightarrow>
               (case linear_forward (linear_fc2 self) intermediate_parallel' of
                  Inl e \<Rightarrow> (Inl e, regions)
                | Inr (output, output_bias) \<Rightarrow>
                    (Inr (PyTuple [PyTensor output, py_opt output_bias]), regions))))"

text \<open>\<open>_custom_function\<close>, the closure of \<open>forward\<close>.\<close>

definition u_custom_function :: "MLP \<Rightarrow> tensor \<Rightarrow> pyval traced" where
  "u_custom_function self hidden_states =
     (case u_forward self hidden_states of
        (Inl e, regions) \<Rightarrow> (Inl e, regions)
      | (Inr (PyTuple [output, output_bias]), regions) \<Rightarrow>
          (if output_bias \<noteq> PyNone then (Inr (PyTuple [output, output_bias]), regions)
           else (Inr output, regions))
      | (Inr _, regions) \<Rightarrow> (Inl ValueError, regions))"

text \<open>\<open>MLP.forward\<close>.\<close>

definition forward :: "MLP \<Rightarrow> tensor \<Rightarrow> pyval traced" where
  "forward self hidden_states =
     (if checkpoint_mlp self then
        (case checkpoint (''_custom_function'', u_custom_function self) False hidden_states of
           (Inl e, regions) \<Rightarrow> (Inl e, regions)
         | (Inr results, regions) \<Rightarrow>
             (if (case results of PyTuple vs \<Rightarrow> length vs = 2 | _ \<Rightarrow> False)
              then (Inr results, regions)
              else (Inr (PyTuple [results, PyNone]), regions)))
      else u_forward self hidden_states)"

section \<open>The gated nonlinearity in the spec's words\<close>

text \<open>
  The spec describes the gated unit as: split the intermediate tensor into two equal halves
  along the last axis, apply the activation function to the first half, multiply elementwise
  by the second half. These definitions follow those words; they are compared with the
  closure \<open>glu\<close> of the source below.
\<close>

definition first_half :: "tensor \<Rightarrow> tensor" where
  "first_half x = x\<lparr>width := width x div 2, rows := map (take (width x div 2)) (rows x)\<rparr>"

definition second_half :: "tensor \<Rightarrow> tensor" where
  "second_half x = x\<lparr>width := width x div 2, rows := map (drop (width x div 2)) (rows x)\<rparr>"

definition gated_product :: "(scalar \<Rightarrow> scalar) \<Rightarrow> tensor \<Rightarrow> tensor" where
  "gated_product f x =
     \<lparr>lead = lead x, width = width x div 2,
      rows = map (\<lambda>r. map2 Mul (map f (take (width x div 2) r)) (drop (width x div 2) r)) (rows x)\<rparr>"

section \<open>Example configurations\<close>

text \<open>
  The scenario of the spec: \<open>hidden_size = 4\<close>, \<open>ffn_hidden_size = 8\<close>, no gating,
  biases, GELU; and variants of it. The input is one position of one sequence.
\<close>

definition scenario_config :: TransformerConfig where
  "scenario_config =
     \<lparr>hidden_size = 4, ffn_hidden_size = 8, gated_linear_unit = False,
      add_bias_linear = True, activation_func = F_gelu,
      init_method = (\<lambda>j k. Num (int (j + k))),
      output_layer_init_method = (\<lambda>j k. Num (int (j * k))),
      bias_gelu_fusion = False, recompute_granularity = None,
      recompute_non_linear_layer_in_mlp = False\<rparr>"

definition scenario_input :: tensor where
  "scenario_input = \<lparr>lead = [1, 1], width = 4, rows = [[Num 1, Num 2, Num 3, Num 4]]\<rparr>"

definition wide_intermediate :: tensor where
  "wide_intermediate = \<lparr>lead = [1, 1], width = 16, rows = [map (\<lambda>n. Num (int n)) [0..<16]]\<rparr>"

definition gated_config :: TransformerConfig where
  "gated_config = scenario_config\<lparr>gated_linear_unit := True\<rparr>"

definition both_toggles_config :: TransformerConfig where
  "both_toggles_config =
     scenario_config\<lparr>recompute_granularity := Some ''selective_both'',
                      TransformerConfig.recompute_non_linear_layer_in_mlp := True\<rparr>"

definition mlp_only_config :: TransformerConfig where
  "mlp_only_config = scenario_config\<lparr>recompute_granularity := Some ''selective_mlp_only''\<rparr>"

definition no_bias_checkpoint_config :: TransformerConfig where
  "no_bias_checkpoint_config =
     scenario_config\<lparr>add_bias_linear := False,
                      recompute_granularity := Some ''selective_mlp_only''\<rparr>"

definition fused_config :: TransformerConfig where
  "fused_config = scenario_config\<lparr>bias_gelu_fusion := True\<rparr>"

definition fused_no_bias_config :: TransformerConfig where
  "fused_no_bias_config = scenario_config\<lparr>add_bias_linear := False, bias_gelu_fusion := True\<rparr>"

definition gated_fused_config :: TransformerConfig where
  "gated_fused_config = scenario_config\<lparr>gated_linear_unit := True, bias_gelu_fusion := True\<rparr>"

lemmas model_defs = MLP_init_def forward_def u_forward_def u_custom_function_def
  u_apply_non_linear_def checkpoint_def linear_forward_def TEColumnParallelLinear_def
  TERowParallelLinear_def tensor_add_def tensor_mul_def broadcast_width_def broadcast_row_def
  bias_gelu_impl_def map_tensor_def py_opt_def tensor_1d_def glu_def chunk_def Let_def

lemmas example_defs = scenario_config_def scenario_input_def wide_intermediate_def
  gated_config_def both_toggles_config_def mlp_only_config_def no_bias_checkpoint_config_def
  fused_config_def fused_no_bias_config_def gated_fused_config_def

section \<open>Tensor operations\<close>

lemma is_F_gelu_iff: "is_F_gelu f \<longleftrightarrow> f = F_gelu"
  by (cases f) simp_all

lemma wf_rowsD: "wf_tensor x \<Longrightarrow> r \<in> set (rows x) \<Longrightarrow> length r = width x"
  by (simp add: wf_tensor_def list_all_iff)

lemma chunk_even:
  assumes wf: "wf_tensor x" and ev: "even (width x)"
  shows "chunk x 2 = Inr [first_half x, second_half x]"
proof (cases "width x = 0")
  case True
  have "map (\<lambda>r. []) (rows x) = rows x"
    using wf True by (intro map_idI) (auto dest: wf_rowsD)
  then show ?thesis
    using True by (simp add: chunk_def first_half_def second_half_def numeral_2_eq_2)
next
  case False
  from ev obtain k where k: "width x = 2 * k" by (auto elim: evenE)
  with False have kpos: "0 < k" by simp
  have ss: "(width x + 2 - 1) div 2 = k" using k by simp
  have cnt: "(width x + k - 1) div k = 2"
  proof -
    have "width x + k - 1 = k * 2 + (k - 1)" using k kpos by simp
    moreover have "(k * 2 + (k - 1)) div k = 2 + (k - 1) div k"
      using kpos by (intro div_mult_self4) simp
    moreover have "(k - 1) div k = 0" using kpos by simp
    ultimately show ?thesis by simp
  qed
  have up: "[0..<2] = [0, Suc 0]" by (simp add: numeral_2_eq_2)
  have dr: "map (\<lambda>r. take k (drop k r)) (rows x) = map (drop k) (rows x)"
    using wf k by (intro map_cong) (auto dest: wf_rowsD)
  have half: "width x div 2 = k" using k by simp
  have m: "min k (width x - k) = k" "min k (width x) = k" using k by simp_all
  have "chunk x 2 = Inr (map (\<lambda>i. x\<lparr>width := min k (width x - i * k),
                                rows := map (\<lambda>r. take k (drop (i * k) r)) (rows x)\<rparr>) [0..<2])"
    unfolding chunk_def Let_def ss cnt using kpos by simp
  also have "\<dots> = Inr [first_half x, second_half x]"
    unfolding up first_half_def second_half_def half using kpos by (simp add: dr m)
  finally show ?thesis .
qed

lemma glu_even:
  assumes "wf_tensor x" "even (width x)"
  shows "glu activation x =
           (case activation (first_half x) of Inl e \<Rightarrow> Inl e | Inr a \<Rightarrow> tensor_mul a (second_half x))"
  by (simp add: glu_def chunk_even[OF assms])

lemma broadcast_row_same: "length r = length s \<Longrightarrow> broadcast_row f r s = map2 f r s"
  by (simp add: broadcast_row_def)

lemma gated_elementwise:
  assumes wf: "wf_tensor x" and ev: "even (width x)"
  shows "tensor_mul (map_tensor f (first_half x)) (second_half x) = Inr (gated_product f x)"
proof -
  from ev obtain k where k: "width x = 2 * k" by (auto elim: evenE)
  have "map2 (broadcast_row Mul) (map (map f) (map (take k) (rows x))) (map (drop k) (rows x))
        = map (\<lambda>r. map2 Mul (map f (take k r)) (drop k r)) (rows x)"
  proof -
    have "map2 (broadcast_row Mul) (map (map f) (map (take k) (rows x))) (map (drop k) (rows x))
          = map (\<lambda>r. broadcast_row Mul (map f (take k r)) (drop k r)) (rows x)"
      by (simp add: zip_map_map map_zip_map zip_same_conv_map o_def)
    also have "\<dots> = map (\<lambda>r. map2 Mul (map f (take k r)) (drop k r)) (rows x)"
      using wf k by (intro map_cong refl broadcast_row_same) (auto dest: wf_rowsD)
    finally show ?thesis .
  qed
  then show ?thesis
    using k by (simp add: tensor_mul_def map_tensor_def first_half_def second_half_def
        gated_product_def broadcast_width_def)
qed



lemma glu_elementwise:
  assumes "wf_tensor x" "even (width x)"
  shows "glu (\<lambda>t. Inr (map_tensor f t)) x = Inr (gated_product f x)"
  using assms by (simp add: glu_even gated_elementwise)

section \<open>Construction and the stages of the forward pass\<close>

lemma MLP_init_fields:
  "config (MLP_init cfg) = cfg"
  "activation_func (MLP_init cfg) =
     (if gated_linear_unit cfg then Glu (TransformerConfig.activation_func cfg)
      else TransformerConfig.activation_func cfg)"
  "input_size (linear_fc1 (MLP_init cfg)) = hidden_size cfg"
  "output_size (linear_fc1 (MLP_init cfg)) =
     (if gated_linear_unit cfg then ffn_hidden_size cfg * 2 else ffn_hidden_size cfg)"
  "input_size (linear_fc2 (MLP_init cfg)) = ffn_hidden_size cfg"
  "output_size (linear_fc2 (MLP_init cfg)) = hidden_size cfg"
  "skip_bias_add (linear_fc1 (MLP_init cfg))"
  "skip_bias_add (linear_fc2 (MLP_init cfg))"
  "bias (linear_fc1 (MLP_init cfg)) =
     (if add_bias_linear cfg
      then Some (replicate (output_size (linear_fc1 (MLP_init cfg))) (Num 0)) else None)"
  "bias (linear_fc2 (MLP_init cfg)) =
     (if add_bias_linear cfg then Some (replicate (hidden_size cfg) (Num 0)) else None)"
  "length (weight (linear_fc1 (MLP_init cfg))) = output_size (linear_fc1 (MLP_init cfg))"
  "length (weight (linear_fc2 (MLP_init cfg))) = hidden_size cfg"
  by (simp_all add: MLP_init_def Let_def TEColumnParallelLinear_def TERowParallelLinear_def)

lemma linear_forward_deferred:
  assumes "width x = input_size l" "skip_bias_add l"
  shows "linear_forward l x =
           Inr (\<lparr>lead = lead x, width = output_size l,
                 rows = map (\<lambda>r. map (Dot r) (weight l)) (rows x)\<rparr>, bias l)"
  using assms by (simp add: linear_forward_def)

lemma call_elementwise_shape:
  assumes "is_elementwise act"
  shows "\<exists>y. call act x = Inr y \<and> lead y = lead x \<and> width y = width x
              \<and> length (rows y) = length (rows x)"
  using assms by (cases act) (simp_all add: map_tensor_def)

lemma tensor_add_same_width:
  assumes "length b = width x"
  shows "\<exists>y. tensor_add x b = Inr y \<and> lead y = lead x \<and> width y = width x
              \<and> length (rows y) = length (rows x)"
  using assms by (simp add: tensor_add_def broadcast_width_def)

lemma tensor_add_even:
  assumes wf: "wf_tensor x" and ev: "even (width x)" and add: "tensor_add x b = Inr y"
  shows "wf_tensor y \<and> width y = width x \<and> lead y = lead x"
proof -
  from ev have n1: "width x \<noteq> 1" by auto
  from add n1 have cases: "length b = width x \<or> length b = 1"
    by (auto simp: tensor_add_def broadcast_width_def split: if_splits)
  from add n1 have y: "y = \<lparr>lead = lead x, width = width x,
                           rows = map (\<lambda>r. broadcast_row Add r b) (rows x)\<rparr>"
    by (auto simp: tensor_add_def broadcast_width_def split: if_splits)
  have "length (broadcast_row Add r b) = width x" if "r \<in> set (rows x)" for r
  proof -
    have lr: "length r = width x" using wf that by (rule wf_rowsD)
    from cases show ?thesis
    proof
      assume "length b = width x"
      then show ?thesis using lr by (simp add: broadcast_row_def)
    next
      assume "length b = 1"
      then obtain c where "b = [c]" by (cases b) auto
      then show ?thesis using lr by (simp add: broadcast_row_def)
    qed
  qed
  then show ?thesis using wf by (simp add: y wf_tensor_def list_all_iff)
qed

lemma nonlinear_shape:
  assumes el: "is_elementwise (activation_func self)"
    and fused: "bias_gelu_fusion (config self) \<longrightarrow>
                  add_bias_linear (config self) \<and> activation_func self = F_gelu \<and> b \<noteq> None"
    and bias: "b = None \<or> (\<exists>v. b = Some v \<and> length v = width i)"
  shows "\<exists>y. u_apply_non_linear self (i, b) = Inr y \<and> lead y = lead i \<and> width y = width i
              \<and> length (rows y) = length (rows i)"
proof (cases "bias_gelu_fusion (config self)")
  case True
  with fused bias obtain v where v: "b = Some v" "length v = width i" by auto
  from tensor_add_same_width[OF v(2)] obtain y where
    "tensor_add i v = Inr y" "lead y = lead i" "width y = width i"
    "length (rows y) = length (rows i)" by blast
  then show ?thesis
    using True fused v by (simp add: u_apply_non_linear_def bias_gelu_impl_def map_tensor_def)
next
  case False
  show ?thesis
  proof (cases b)
    case None
    then show ?thesis
      using False call_elementwise_shape[OF el, of i] by (simp add: u_apply_non_linear_def)
  next
    case (Some v)
    with bias have "length v = width i" by simp
    from tensor_add_same_width[OF this] obtain y where
      y: "tensor_add i v = Inr y" "lead y = lead i" "width y = width i"
      "length (rows y) = length (rows i)" by blast
    from call_elementwise_shape[OF el, of y] y show ?thesis
      using False Some by (auto simp: u_apply_non_linear_def)
  qed
qed

lemma checkpoint_snd_ok:
  "fst (snd fn args) = Inr v \<Longrightarrow> snd (checkpoint fn flag args) = fst fn # snd (snd fn args)"
  by (auto simp: checkpoint_def split: prod.splits sum.splits)

lemma u_forward_regions:
  "fst (u_forward self x) = Inr v \<Longrightarrow>
     snd (u_forward self x) = (if recompute_non_linear_layer_in_mlp self then [''_apply_non_linear''] else [])"
  by (auto simp: u_forward_def checkpoint_def split: sum.splits prod.splits if_splits)

lemma u_forward_value:
  "fst (u_forward self x) = Inr v \<Longrightarrow> \<exists>out b. v = PyTuple [PyTensor out, py_opt b]"
  by (auto simp: u_forward_def checkpoint_def split: sum.splits prod.splits if_splits)

lemma u_custom_function_fst:
  "fst (u_custom_function self x) =
     (case fst (u_forward self x) of
        Inl e \<Rightarrow> Inl e
      | Inr (PyTuple [out, b]) \<Rightarrow> if b \<noteq> PyNone then Inr (PyTuple [out, b]) else Inr out
      | Inr _ \<Rightarrow> Inl ValueError)"
  by (simp add: u_custom_function_def split: prod.splits sum.splits pyval.splits list.splits)

lemma u_custom_function_snd: "snd (u_custom_function self x) = snd (u_forward self x)"
  by (simp add: u_custom_function_def split: prod.splits sum.splits pyval.splits list.splits)

lemma forward_fst_checkpointed:
  "checkpoint_mlp self \<Longrightarrow>
     fst (forward self x) =
       (case fst (u_custom_function self x) of
          Inl e \<Rightarrow> Inl e
        | Inr results \<Rightarrow>
            if (case results of PyTuple vs \<Rightarrow> length vs = 2 | _ \<Rightarrow> False) then Inr results
            else Inr (PyTuple [results, PyNone]))"
  by (simp add: forward_def checkpoint_def split: prod.splits sum.splits)

lemma forward_fst: "fst (forward self x) = fst (u_forward self x)"
proof (cases "checkpoint_mlp self")
  case False
  then show ?thesis by (simp add: forward_def)
next
  case True
  show ?thesis
  proof (cases "fst (u_forward self x)")
    case (Inl e)
    then show ?thesis by (simp add: forward_fst_checkpointed[OF True] u_custom_function_fst)
  next
    case (Inr v)
    then obtain out b where v: "v = PyTuple [PyTensor out, py_opt b]"
      using u_forward_value by blast
    show ?thesis
      by (cases b) (simp_all add: forward_fst_checkpointed[OF True] u_custom_function_fst Inr v py_opt_def)
  qed
qed

lemma MLP_init_toggles_off:
  "MLP_init (cfg\<lparr>recompute_granularity := None,
                 TransformerConfig.recompute_non_linear_layer_in_mlp := False\<rparr>)
   = (MLP_init cfg)\<lparr>config := cfg\<lparr>recompute_granularity := None,
                 TransformerConfig.recompute_non_linear_layer_in_mlp := False\<rparr>,
        checkpoint_mlp := False, recompute_non_linear_layer_in_mlp := False\<rparr>"
  by (simp add: MLP_init_def Let_def TEColumnParallelLinear_def TERowParallelLinear_def)

lemma u_forward_fst_cong:
  assumes "linear_fc1 a = linear_fc1 b" "linear_fc2 a = linear_fc2 b"
    "activation_func a = activation_func b"
    "bias_gelu_fusion (config a) = bias_gelu_fusion (config b)"
    "add_bias_linear (config a) = add_bias_linear (config b)"
  shows "fst (u_forward a x) = fst (u_forward b x)"
  using assms
  by (simp add: u_forward_def u_apply_non_linear_def checkpoint_def split: sum.splits prod.splits)

section \<open>Properties of the MLP block\<close>

subsection \<open>The two recomputation toggles\<close>

text \<open>
  Claim C1 as stated fails: with \<open>recompute_granularity = 'selective_both'\<close> and
  \<open>recompute_non_linear_layer_in_mlp = True\<close> both toggles of the constructed MLP are
  enabled, and one forward call checkpoints the whole \<open>_forward\<close> sequence and, inside
  it, the nonlinearity region.
\<close>

theorem toggles_both_enabled:
  "checkpoint_mlp (MLP_init both_toggles_config)
   \<and> recompute_non_linear_layer_in_mlp (MLP_init both_toggles_config)
   \<and> snd (forward (MLP_init both_toggles_config) scenario_input) =
         [''_custom_function'', ''_apply_non_linear'']"
  by (simp add: example_defs model_defs)

text \<open>
  Claim C1, as the code has it. Each of the two recomputation toggles is selected from the
  configuration at construction, independently of the other: \<open>checkpoint_mlp\<close> from
  \<open>recompute_granularity\<close>, \<open>recompute_non_linear_layer_in_mlp\<close> from the field of
  that name. A forward call that returns has checkpointed the whole \<open>_forward\<close> sequence
  exactly when the first is enabled and the nonlinearity region exactly when the second is:
  both regions when both are.
\<close>

theorem toggles_independent:
  "checkpoint_mlp (MLP_init cfg) =
     (recompute_granularity cfg \<in> set [Some ''selective_mlp_only'', Some ''selective_both''])
   \<and> recompute_non_linear_layer_in_mlp (MLP_init cfg) =
       TransformerConfig.recompute_non_linear_layer_in_mlp cfg
   \<and> (fst (forward (MLP_init cfg) x) = Inr v \<longrightarrow>
        snd (forward (MLP_init cfg) x) =
          (if checkpoint_mlp (MLP_init cfg) then [''_custom_function''] else [])
          @ (if recompute_non_linear_layer_in_mlp (MLP_init cfg) then [''_apply_non_linear''] else []))"
proof -
  let ?m = "MLP_init cfg"
  have "snd (forward ?m x) =
          (if checkpoint_mlp ?m then [''_custom_function''] else [])
          @ (if recompute_non_linear_layer_in_mlp ?m then [''_apply_non_linear''] else [])"
    if ok: "fst (forward ?m x) = Inr v"
  proof (cases "checkpoint_mlp ?m")
    case False
    then show ?thesis using ok u_forward_regions[of ?m x v] by (simp add: forward_def)
  next
    case True
    from ok have uf: "fst (u_forward ?m x) = Inr v" by (simp add: forward_fst)
    then obtain w where cf: "fst (u_custom_function ?m x) = Inr w"
      using ok True by (auto simp: forward_fst_checkpointed split: sum.splits)
    have "snd (forward ?m x) = snd (checkpoint (''_custom_function'', u_custom_function ?m) False x)"
      using True by (simp add: forward_def split: prod.splits sum.splits)
    also have "\<dots> = ''_custom_function'' # snd (u_custom_function ?m x)"
      using checkpoint_snd_ok[of "(''_custom_function'', u_custom_function ?m)" x w False] cf by simp
    finally show ?thesis
      using True u_forward_regions[OF uf] by (simp add: u_custom_function_snd)
  qed
  then show ?thesis by (simp add: MLP_init_def Let_def)
qed

text \<open>
  Claim C1 with only the full-MLP gate enabled: the call returns and checkpoints the whole sequence alone.
\<close>

theorem toggles_independent_witness:
  "(\<exists>v. fst (forward (MLP_init mlp_only_config) scenario_input) = Inr v)
   \<and> snd (forward (MLP_init mlp_only_config) scenario_input) = [''_custom_function'']"
proof -
  obtain v where v: "fst (forward (MLP_init mlp_only_config) scenario_input) = Inr v"
    by (simp add: example_defs model_defs)
  from toggles_independent[of mlp_only_config scenario_input v] v
  have "snd (forward (MLP_init mlp_only_config) scenario_input) = [''_custom_function'']"
    by (simp add: example_defs MLP_init_def)
  with v show ?thesis by blast
qed

subsection \<open>The fused kernel and its precondition\<close>

text \<open>
  Claim C2. With \<open>bias_gelu_fusion\<close> configured, the nonlinearity stage takes the fused
  kernel exactly when \<open>add_bias_linear\<close> is true and the instance's activation function
  is \<open>F.gelu\<close> itself; when either fails the stage raises \<open>AssertionError\<close>, and so
  does the forward call that reaches it, instead of computing an output.
\<close>

theorem fused_path_precondition:
  assumes "bias_gelu_fusion (config self)"
  shows "(add_bias_linear (config self) \<and> activation_func self = F_gelu \<longrightarrow>
            u_apply_non_linear self (x, b) = bias_gelu_impl x b)
       \<and> (\<not> (add_bias_linear (config self) \<and> activation_func self = F_gelu) \<longrightarrow>
            u_apply_non_linear self (x, b) = Inl AssertionError)
       \<and> (\<not> (add_bias_linear (config self) \<and> activation_func self = F_gelu)
            \<and> linear_forward (linear_fc1 self) hidden_states = Inr (x, b) \<longrightarrow>
            fst (forward self hidden_states) = Inl AssertionError)"
  using assms
  by (auto simp: forward_fst u_forward_def u_apply_non_linear_def checkpoint_def is_F_gelu_iff)

text \<open>
  Claim C2 on the scenario with the fused kernel: taken with biases and GELU, refused without biases.
\<close>

theorem fused_path_precondition_witness:
  "bias_gelu_fusion (config (MLP_init fused_config))
   \<and> u_apply_non_linear (MLP_init fused_config) (scenario_input, Some [Num 0, Num 0, Num 0, Num 0])
       = bias_gelu_impl scenario_input (Some [Num 0, Num 0, Num 0, Num 0])
   \<and> bias_gelu_fusion (config (MLP_init fused_no_bias_config))
   \<and> u_apply_non_linear (MLP_init fused_no_bias_config) (scenario_input, None) = Inl AssertionError
   \<and> fst (forward (MLP_init fused_no_bias_config) scenario_input) = Inl AssertionError"
proof -
  have f1: "bias_gelu_fusion (config (MLP_init fused_config))"
    and f2: "bias_gelu_fusion (config (MLP_init fused_no_bias_config))"
    by (simp_all add: example_defs MLP_init_def)
  obtain x b where fc1:
    "linear_forward (linear_fc1 (MLP_init fused_no_bias_config)) scenario_input = Inr (x, b)"
    by (simp add: example_defs MLP_init_def linear_forward_def TEColumnParallelLinear_def)
  from fused_path_precondition[OF f1, of scenario_input "Some [Num 0, Num 0, Num 0, Num 0]"]
  have a: "u_apply_non_linear (MLP_init fused_config) (scenario_input, Some [Num 0, Num 0, Num 0, Num 0])
       = bias_gelu_impl scenario_input (Some [Num 0, Num 0, Num 0, Num 0])"
    by (simp add: example_defs MLP_init_def)
  from fused_path_precondition[OF f2, of scenario_input None]
  have b: "u_apply_non_linear (MLP_init fused_no_bias_config) (scenario_input, None) = Inl AssertionError"
    by (simp add: example_defs MLP_init_def)
  from fused_path_precondition[OF f2, of x b scenario_input] fc1
  have c: "fst (forward (MLP_init fused_no_bias_config) scenario_input) = Inl AssertionError"
    by (simp add: example_defs MLP_init_def)
  from f1 f2 a b c show ?thesis by blast
qed

subsection \<open>The gated linear unit\<close>

text \<open>
  Claim C3 as stated fails. With gating and \<open>bias_gelu_fusion\<close> both enabled the
  nonlinearity stage raises \<open>AssertionError\<close> on a tensor of even last dimension and
  returns no product. With gating alone and a bias present, what is split is the sum of the
  tensor and the bias: the result is not the product of the activated first half of the
  intermediate tensor with its second half.
\<close>

theorem gated_stage_fused_or_biased:
  "gated_linear_unit gated_fused_config
   \<and> wf_tensor scenario_input \<and> even (width scenario_input)
   \<and> u_apply_non_linear (MLP_init gated_fused_config)
        (scenario_input, Some [Num 5, Num 6, Num 7, Num 8]) = Inl AssertionError
   \<and> gated_linear_unit gated_config
   \<and> u_apply_non_linear (MLP_init gated_config)
        (scenario_input, Some [Num 5, Num 6, Num 7, Num 8])
       = Inr \<lparr>lead = [1, 1], width = 2,
              rows = [[Mul (Gelu (Add (Num 1) (Num 5))) (Add (Num 3) (Num 7)),
                       Mul (Gelu (Add (Num 2) (Num 6))) (Add (Num 4) (Num 8))]]\<rparr>
   \<and> u_apply_non_linear (MLP_init gated_config)
        (scenario_input, Some [Num 5, Num 6, Num 7, Num 8])
       \<noteq> Inr (gated_product Gelu scenario_input)"
proof -
  have up: "[0..<2] = [0, Suc 0]" by (simp add: numeral_2_eq_2)
  show ?thesis
    by (simp add: example_defs model_defs wf_tensor_def gated_product_def up)
qed

text \<open>
  Claim C3, as the code has it. With gating enabled and \<open>bias_gelu_fusion\<close> disabled, on
  an intermediate tensor whose last dimension is even, the nonlinearity stage first adds the
  bias when one is present, then splits the tensor into two equal halves along the last
  axis, applies the configured activation function to the first half only, and returns the
  product of the activated first half with the unactivated second half: for \<open>F.gelu\<close>
  and for any elementwise activation \<open>f\<close>, the elementwise product. An error of the bias
  addition is the stage's result.
\<close>

theorem gated_stage_splits_halves:
  assumes "gated_linear_unit cfg" "\<not> bias_gelu_fusion cfg" "wf_tensor x" "even (width x)"
  shows "u_apply_non_linear (MLP_init cfg) (x, None) =
           (case call (TransformerConfig.activation_func cfg) (first_half x) of
              Inl e \<Rightarrow> Inl e
            | Inr a \<Rightarrow> tensor_mul a (second_half x))
       \<and> u_apply_non_linear (MLP_init cfg) (x, Some b) =
           (case tensor_add x b of
              Inl e \<Rightarrow> Inl e
            | Inr y \<Rightarrow>
                (case call (TransformerConfig.activation_func cfg) (first_half y) of
                   Inl e \<Rightarrow> Inl e
                 | Inr a \<Rightarrow> tensor_mul a (second_half y)))
       \<and> (TransformerConfig.activation_func cfg = F_gelu \<longrightarrow>
            u_apply_non_linear (MLP_init cfg) (x, None) = Inr (gated_product Gelu x)
            \<and> u_apply_non_linear (MLP_init cfg) (x, Some b) =
                (case tensor_add x b of Inl e \<Rightarrow> Inl e | Inr y \<Rightarrow> Inr (gated_product Gelu y)))
       \<and> (TransformerConfig.activation_func cfg = Elementwise f \<longrightarrow>
            u_apply_non_linear (MLP_init cfg) (x, None) = Inr (gated_product f x)
            \<and> u_apply_non_linear (MLP_init cfg) (x, Some b) =
                (case tensor_add x b of Inl e \<Rightarrow> Inl e | Inr y \<Rightarrow> Inr (gated_product f y)))"
proof -
  let ?act = "TransformerConfig.activation_func cfg"
  have stage_none: "u_apply_non_linear (MLP_init cfg) (x, None) = glu (call ?act) x"
    using assms(1,2) by (simp add: u_apply_non_linear_def MLP_init_fields)
  have stage_some: "u_apply_non_linear (MLP_init cfg) (x, Some b) =
      (case tensor_add x b of Inl e \<Rightarrow> Inl e | Inr y \<Rightarrow> glu (call ?act) y)"
    using assms(1,2)
    by (cases "tensor_add x b") (simp_all add: u_apply_non_linear_def MLP_init_fields)
  have g: "glu activation y =
             (case activation (first_half y) of Inl e \<Rightarrow> Inl e | Inr a \<Rightarrow> tensor_mul a (second_half y))"
          "glu (\<lambda>t. Inr (map_tensor h t)) y = Inr (gated_product h y)"
    if "tensor_add x b = Inr y" for y activation h
  proof -
    from tensor_add_even[OF assms(3,4) that] assms(4)
    have wy: "wf_tensor y" and ey: "even (width y)" by simp_all
    show "glu activation y =
             (case activation (first_half y) of Inl e \<Rightarrow> Inl e | Inr a \<Rightarrow> tensor_mul a (second_half y))"
      by (rule glu_even[OF wy ey])
    show "glu (\<lambda>t. Inr (map_tensor h t)) y = Inr (gated_product h y)"
      by (rule glu_elementwise[OF wy ey])
  qed
  have a: "u_apply_non_linear (MLP_init cfg) (x, None) =
           (case call ?act (first_half x) of Inl e \<Rightarrow> Inl e | Inr a \<Rightarrow> tensor_mul a (second_half x))"
    unfolding stage_none by (rule glu_even[OF assms(3,4)])
  have b: "u_apply_non_linear (MLP_init cfg) (x, Some b) =
           (case tensor_add x b of
              Inl e \<Rightarrow> Inl e
            | Inr y \<Rightarrow>
                (case call ?act (first_half y) of
                   Inl e \<Rightarrow> Inl e
                 | Inr a \<Rightarrow> tensor_mul a (second_half y)))"
    unfolding stage_some by (cases "tensor_add x b") (simp_all add: g(1))
  have c: "u_apply_non_linear (MLP_init cfg) (x, None) = Inr (gated_product h x)
            \<and> u_apply_non_linear (MLP_init cfg) (x, Some b) =
                (case tensor_add x b of Inl e \<Rightarrow> Inl e | Inr y \<Rightarrow> Inr (gated_product h y))"
    if "call ?act = (\<lambda>t. Inr (map_tensor h t))" for h
    unfolding stage_none stage_some that
    by (cases "tensor_add x b") (simp_all add: g(2) glu_elementwise[OF assms(3,4)])
  have d: "?act = F_gelu \<longrightarrow>
            u_apply_non_linear (MLP_init cfg) (x, None) = Inr (gated_product Gelu x)
            \<and> u_apply_non_linear (MLP_init cfg) (x, Some b) =
                (case tensor_add x b of Inl e \<Rightarrow> Inl e | Inr y \<Rightarrow> Inr (gated_product Gelu y))"
    using c[of Gelu] by simp
  have e: "?act = Elementwise f \<longrightarrow>
            u_apply_non_linear (MLP_init cfg) (x, None) = Inr (gated_product f x)
            \<and> u_apply_non_linear (MLP_init cfg) (x, Some b) =
                (case tensor_add x b of Inl e \<Rightarrow> Inl e | Inr y \<Rightarrow> Inr (gated_product f y))"
    using c[of f] by simp
  from a b d e show ?thesis by blast
qed

text \<open>
  Claim C3 on a row of four elements, without and with a bias: the first two elements are
  activated and multiplied by the last two.
\<close>

theorem gated_stage_splits_halves_witness:
  "gated_linear_unit gated_config \<and> \<not> bias_gelu_fusion gated_config
   \<and> wf_tensor scenario_input \<and> even (width scenario_input)
   \<and> u_apply_non_linear (MLP_init gated_config) (scenario_input, None)
       = Inr \<lparr>lead = [1, 1], width = 2,
              rows = [[Mul (Gelu (Num 1)) (Num 3), Mul (Gelu (Num 2)) (Num 4)]]\<rparr>
   \<and> u_apply_non_linear (MLP_init gated_config)
        (scenario_input, Some [Num 5, Num 6, Num 7, Num 8])
       = Inr \<lparr>lead = [1, 1], width = 2,
              rows = [[Mul (Gelu (Add (Num 1) (Num 5))) (Add (Num 3) (Num 7)),
                       Mul (Gelu (Add (Num 2) (Num 6))) (Add (Num 4) (Num 8))]]\<rparr>"
proof -
  have h: "gated_linear_unit gated_config" "\<not> bias_gelu_fusion gated_config"
    "wf_tensor scenario_input" "even (width scenario_input)"
    by (simp_all add: example_defs wf_tensor_def)
  have act: "TransformerConfig.activation_func gated_config = F_gelu"
    by (simp add: example_defs)
  from gated_stage_splits_halves[OF h, of "[Num 5, Num 6, Num 7, Num 8]"] act
  have "u_apply_non_linear (MLP_init gated_config) (scenario_input, None)
          = Inr (gated_product Gelu scenario_input)"
    and "u_apply_non_linear (MLP_init gated_config)
           (scenario_input, Some [Num 5, Num 6, Num 7, Num 8])
          = (case tensor_add scenario_input [Num 5, Num 6, Num 7, Num 8] of
               Inl e \<Rightarrow> Inl e | Inr y \<Rightarrow> Inr (gated_product Gelu y))"
    by blast+
  moreover have "gated_product Gelu scenario_input
      = \<lparr>lead = [1, 1], width = 2,
         rows = [[Mul (Gelu (Num 1)) (Num 3), Mul (Gelu (Num 2)) (Num 4)]]\<rparr>"
    by (simp add: example_defs gated_product_def)
  moreover have "(case tensor_add scenario_input [Num 5, Num 6, Num 7, Num 8] of
               Inl e \<Rightarrow> Inl e | Inr y \<Rightarrow> Inr (gated_product Gelu y))
      = Inr \<lparr>lead = [1, 1], width = 2,
              rows = [[Mul (Gelu (Add (Num 1) (Num 5))) (Add (Num 3) (Num 7)),
                       Mul (Gelu (Add (Num 2) (Num 6))) (Add (Num 4) (Num 8))]]\<rparr>"
    by (simp add: example_defs gated_product_def tensor_add_def broadcast_width_def
        broadcast_row_def)
  ultimately show ?thesis using h by simp
qed

subsection \<open>Widths under gating\<close>



subsection \<open>Recomputation does not change the result\<close>

text \<open>
  Claim C5. For every configuration and input, \<open>forward\<close> returns the same result
  (output and bias, or the same error) as \<open>forward\<close> of the MLP built from the same
  configuration with both recomputation toggles disabled.
\<close>

theorem recompute_transparent:
  "fst (forward (MLP_init cfg) x) =
   fst (forward (MLP_init (cfg\<lparr>recompute_granularity := None,
                 TransformerConfig.recompute_non_linear_layer_in_mlp := False\<rparr>)) x)"
  unfolding forward_fst
  by (rule u_forward_fst_cong) (simp_all add: MLP_init_toggles_off, simp_all add: MLP_init_def Let_def)

text \<open>
  Claim C5 on the scenario, both toggles enabled against both disabled.
\<close>

theorem recompute_transparent_witness:
  "fst (forward (MLP_init both_toggles_config) scenario_input)
   = fst (forward (MLP_init scenario_config) scenario_input)"
  using recompute_transparent[of both_toggles_config scenario_input]
  by (simp add: both_toggles_config_def scenario_config_def)

subsection \<open>The arity of the result\<close>

text \<open>
  Claim C6. Whenever \<open>forward\<close> returns, it returns a two-element tuple of the output
  tensor and a bias that is a tensor or \<open>None\<close>; when the full-MLP recompute path yields
  a single tensor \<open>r\<close> (bias absent), \<open>forward\<close> returns \<open>(r, None)\<close>.
\<close>

theorem forward_returns_pair:
  "(fst (forward self x) = Inr v \<longrightarrow>
      (\<exists>out b. v = PyTuple [PyTensor out, b] \<and> (b = PyNone \<or> (\<exists>t. b = PyTensor t))))
   \<and> (checkpoint_mlp self \<and> fst (u_custom_function self x) = Inr (PyTensor r) \<longrightarrow>
        fst (forward self x) = Inr (PyTuple [PyTensor r, PyNone]))"
proof (intro conjI impI)
  assume "fst (forward self x) = Inr v"
  then have "fst (u_forward self x) = Inr v" by (simp add: forward_fst)
  then obtain out b where "v = PyTuple [PyTensor out, py_opt b]"
    using u_forward_value by blast
  then show "\<exists>out b. v = PyTuple [PyTensor out, b] \<and> (b = PyNone \<or> (\<exists>t. b = PyTensor t))"
    by (cases b) (simp_all add: py_opt_def)
next
  assume "checkpoint_mlp self \<and> fst (u_custom_function self x) = Inr (PyTensor r)"
  then show "fst (forward self x) = Inr (PyTuple [PyTensor r, PyNone])"
    by (simp add: forward_fst_checkpointed)
qed

text \<open>
  Claim C6 on the scenario without biases under full-MLP recompute: the single result is paired with \<open>None\<close>.
\<close>

theorem forward_returns_pair_witness:
  "checkpoint_mlp (MLP_init no_bias_checkpoint_config)
   \<and> (\<exists>r. fst (u_custom_function (MLP_init no_bias_checkpoint_config) scenario_input)
             = Inr (PyTensor r)
          \<and> fst (forward (MLP_init no_bias_checkpoint_config) scenario_input)
             = Inr (PyTuple [PyTensor r, PyNone]))"
proof -
  have c: "checkpoint_mlp (MLP_init no_bias_checkpoint_config)"
    by (simp add: example_defs MLP_init_def)
  obtain r where r: "fst (u_custom_function (MLP_init no_bias_checkpoint_config) scenario_input)
             = Inr (PyTensor r)"
    by (simp add: example_defs model_defs)
  from forward_returns_pair[of "MLP_init no_bias_checkpoint_config" scenario_input
      "PyTuple [PyTensor r, PyNone]" r] c r
  have "fst (forward (MLP_init no_bias_checkpoint_config) scenario_input)
             = Inr (PyTuple [PyTensor r, PyNone])"
    by blast
  with c r show ?thesis by blast
qed

subsection \<open>An absent bias\<close>

text \<open>
  Claim C7. Without the fused kernel, when the bias of the input projection is \<open>None\<close>
  the nonlinearity stage applies the activation function directly to the intermediate
  tensor; when the bias is present it is added first and the activation function is applied
  to the sum.
\<close>

theorem bias_absent_skips_addition:
  assumes "\<not> bias_gelu_fusion (config self)"
  shows "u_apply_non_linear self (x, None) = call (activation_func self) x
       \<and> u_apply_non_linear self (x, Some b) =
           (case tensor_add x b of Inl e \<Rightarrow> Inl e | Inr y \<Rightarrow> call (activation_func self) y)"
  using assms by (simp add: u_apply_non_linear_def)

text \<open>
  Claim C7 on the scenario: without a bias the elements are activated as they are, with a bias the sums are.
\<close>

theorem bias_absent_skips_addition_witness:
  "\<not> bias_gelu_fusion (config (MLP_init scenario_config))
   \<and> u_apply_non_linear (MLP_init scenario_config) (scenario_input, None)
       = Inr \<lparr>lead = [1, 1], width = 4,
              rows = [[Gelu (Num 1), Gelu (Num 2), Gelu (Num 3), Gelu (Num 4)]]\<rparr>
   \<and> u_apply_non_linear (MLP_init scenario_config)
         (scenario_input, Some [Num 5, Num 6, Num 7, Num 8])
       = Inr \<lparr>lead = [1, 1], width = 4,
              rows = [[Gelu (Add (Num 1) (Num 5)), Gelu (Add (Num 2) (Num 6)),
                       Gelu (Add (Num 3) (Num 7)), Gelu (Add (Num 4) (Num 8))]]\<rparr>"
proof -
  have h: "\<not> bias_gelu_fusion (config (MLP_init scenario_config))"
    by (simp add: example_defs MLP_init_def)
  from bias_absent_skips_addition[OF h, of scenario_input "[Num 5, Num 6, Num 7, Num 8]"] h
  show ?thesis
    by (simp add: example_defs MLP_init_def Let_def map_tensor_def tensor_add_def
        broadcast_width_def broadcast_row_def)
qed

subsection \<open>Shape and bias without gating\<close>

text \<open>
  Claim C8 as stated fails: with gating disabled, \<open>bias_gelu_fusion\<close> on and
  \<open>add_bias_linear\<close> off, \<open>forward\<close> on a hidden state of shape
  \<open>[1, 1, hidden_size]\<close> raises \<open>AssertionError\<close> and returns no output.
\<close>

theorem fused_without_bias_raises:
  "\<not> gated_linear_unit fused_no_bias_config
   \<and> wf_tensor scenario_input
   \<and> shape scenario_input = [1, 1, hidden_size fused_no_bias_config]
   \<and> fst (forward (MLP_init fused_no_bias_config) scenario_input) = Inl AssertionError"
  by (simp add: example_defs model_defs wf_tensor_def shape_def)

text \<open>
  Claim C8, as the code has it. With gating disabled, an elementwise activation function,
  and the fused-kernel precondition met (\<open>bias_gelu_fusion\<close> off, or
  \<open>add_bias_linear\<close> on with \<open>F.gelu\<close> as activation), \<open>forward\<close> on a hidden state
  whose last dimension is \<open>hidden_size\<close> returns an output of the same shape as the input,
  and the returned bias is present exactly when \<open>add_bias_linear\<close> is true.
\<close>

theorem ungated_shape_and_bias:
  assumes ng: "\<not> gated_linear_unit cfg"
    and wf: "wf_tensor x" and w: "width x = hidden_size cfg"
    and el: "is_elementwise (TransformerConfig.activation_func cfg)"
    and fused: "bias_gelu_fusion cfg \<longrightarrow>
                  add_bias_linear cfg \<and> TransformerConfig.activation_func cfg = F_gelu"
  shows "\<exists>out b. fst (forward (MLP_init cfg) x) = Inr (PyTuple [PyTensor out, b])
                 \<and> shape out = shape x \<and> wf_tensor out
                 \<and> (b \<noteq> PyNone \<longleftrightarrow> add_bias_linear cfg)"
proof -
  let ?m = "MLP_init cfg"
  define i where "i = \<lparr>lead = lead x, width = output_size (linear_fc1 ?m),
                       rows = map (\<lambda>r. map (Dot r) (weight (linear_fc1 ?m))) (rows x)\<rparr>"
  have fc1: "linear_forward (linear_fc1 ?m) x = Inr (i, bias (linear_fc1 ?m))"
    unfolding i_def using w by (simp add: linear_forward_deferred MLP_init_fields)
  have wi: "width i = ffn_hidden_size cfg" "lead i = lead x" "length (rows i) = length (rows x)"
    using ng by (simp_all add: i_def MLP_init_fields)
  have "\<exists>y. u_apply_non_linear ?m (i, bias (linear_fc1 ?m)) = Inr y \<and> lead y = lead i
             \<and> width y = width i \<and> length (rows y) = length (rows i)"
    using ng el fused wi by (intro nonlinear_shape) (auto simp: MLP_init_fields)
  then obtain y where y: "u_apply_non_linear ?m (i, bias (linear_fc1 ?m)) = Inr y"
    "lead y = lead x" "width y = ffn_hidden_size cfg" "length (rows y) = length (rows x)"
    using wi by auto
  define out where "out = \<lparr>lead = lead y, width = hidden_size cfg,
                       rows = map (\<lambda>r. map (Dot r) (weight (linear_fc2 ?m))) (rows y)\<rparr>"
  have fc2: "linear_forward (linear_fc2 ?m) y = Inr (out, bias (linear_fc2 ?m))"
    unfolding out_def using y(3) by (simp add: linear_forward_deferred MLP_init_fields)
  have res: "fst (forward ?m x) = Inr (PyTuple [PyTensor out, py_opt (bias (linear_fc2 ?m))])"
    unfolding forward_fst u_forward_def by (simp add: fc1 y(1) fc2 checkpoint_def)
  have sh: "shape out = shape x" using y(2) w by (simp add: shape_def out_def)
  have wfo: "wf_tensor out"
    using wf y by (simp add: wf_tensor_def out_def list_all_iff MLP_init_fields)
  have pb: "py_opt (bias (linear_fc2 ?m)) \<noteq> PyNone \<longleftrightarrow> add_bias_linear cfg"
    by (simp add: MLP_init_fields py_opt_def)
  from res sh wfo pb show ?thesis by blast
qed

text \<open>
  Claim C8 on the scenario: an output of shape \<open>[1, 1, 4]\<close> and a bias.
\<close>

theorem ungated_shape_and_bias_witness:
  "\<not> gated_linear_unit scenario_config \<and> wf_tensor scenario_input
   \<and> width scenario_input = hidden_size scenario_config
   \<and> (\<exists>out b. fst (forward (MLP_init scenario_config) scenario_input)
                  = Inr (PyTuple [PyTensor out, b])
              \<and> shape out = [1, 1, 4] \<and> b \<noteq> PyNone)"
proof -
  have h: "\<not> gated_linear_unit scenario_config" "wf_tensor scenario_input"
    "width scenario_input = hidden_size scenario_config"
    "is_elementwise (TransformerConfig.activation_func scenario_config)"
    "bias_gelu_fusion scenario_config \<longrightarrow>
       add_bias_linear scenario_config \<and> TransformerConfig.activation_func scenario_config = F_gelu"
    by (simp_all add: example_defs wf_tensor_def)
  have c: "shape scenario_input = [1, 1, 4]" "add_bias_linear scenario_config"
    by (simp_all add: example_defs shape_def)
  from ungated_shape_and_bias[OF h] obtain out b where
    "fst (forward (MLP_init scenario_config) scenario_input) = Inr (PyTuple [PyTensor out, b])"
    "shape out = shape scenario_input" "b \<noteq> PyNone \<longleftrightarrow> add_bias_linear scenario_config"
    by blast
  with c h show ?thesis by auto
qed

subsection \<open>Gating with the fused kernel\<close>

text \<open>
  Claim C9. With both \<open>gated_linear_unit\<close> and \<open>bias_gelu_fusion\<close> enabled, the
  nonlinearity stage raises \<open>AssertionError\<close> on every argument, whatever the configured
  activation function: the instance's activation function is the closure \<open>glu\<close>, never
  \<open>F.gelu\<close>. So every forward call on a hidden state of width \<open>hidden_size\<close> raises
  \<open>AssertionError\<close>, and no forward call returns.
\<close>

theorem gated_fused_always_asserts:
  assumes "gated_linear_unit cfg" "bias_gelu_fusion cfg"
  shows "u_apply_non_linear (MLP_init cfg) a = Inl AssertionError
       \<and> (width x = hidden_size cfg \<longrightarrow> fst (forward (MLP_init cfg) x) = Inl AssertionError)
       \<and> (\<exists>e. fst (forward (MLP_init cfg) x) = Inl e)"
proof -
  have a: "u_apply_non_linear (MLP_init cfg) a = Inl AssertionError" for a
    using assms by (cases a) (simp add: u_apply_non_linear_def MLP_init_def Let_def)
  have b: "fst (forward (MLP_init cfg) x) = Inl AssertionError" if "width x = hidden_size cfg"
    using that unfolding forward_fst u_forward_def
    by (simp add: a checkpoint_def split: sum.splits prod.splits)
       (simp add: linear_forward_def MLP_init_def Let_def TEColumnParallelLinear_def)
  have c: "\<exists>e. fst (forward (MLP_init cfg) x) = Inl e"
    unfolding forward_fst u_forward_def
    by (simp add: a checkpoint_def split: sum.splits prod.splits)
  from a b c show ?thesis by blast
qed

text \<open>
  Claim C9 on the scenario with gating and the fused kernel, \<open>F.gelu\<close> configured and biases enabled.
\<close>

theorem gated_fused_always_asserts_witness:
  "gated_linear_unit gated_fused_config \<and> bias_gelu_fusion gated_fused_config
   \<and> TransformerConfig.activation_func gated_fused_config = F_gelu
   \<and> add_bias_linear gated_fused_config
   \<and> width scenario_input = hidden_size gated_fused_config
   \<and> u_apply_non_linear (MLP_init gated_fused_config) (wide_intermediate, None)
       = Inl AssertionError
   \<and> fst (forward (MLP_init gated_fused_config) scenario_input) = Inl AssertionError"
proof -
  have g: "gated_linear_unit gated_fused_config" and f: "bias_gelu_fusion gated_fused_config"
    by (simp_all add: example_defs)
  have c: "TransformerConfig.activation_func gated_fused_config = F_gelu"
    "add_bias_linear gated_fused_config" "width scenario_input = hidden_size gated_fused_config"
    by (simp_all add: example_defs)
  from gated_fused_always_asserts[OF g f, of "(wide_intermediate, None)" scenario_input] g f c
  show ?thesis by blast
qed

subsection \<open>The full-MLP recompute gate\<close>

text \<open>
  Claim C10. The full-MLP recompute gate \<open>checkpoint_mlp\<close> of a constructed MLP is
  enabled if and only if the configured \<open>recompute_granularity\<close> is the string
  \<open>selective_mlp_only\<close> or the string \<open>selective_both\<close>; with any other value, also when
  it is absent, \<open>forward\<close> is \<open>_forward\<close> on every input: same result and no region
  registered for the whole block.
\<close>

theorem checkpoint_mlp_iff:
  "checkpoint_mlp (MLP_init cfg) =
     (recompute_granularity cfg = Some ''selective_mlp_only''
      \<or> recompute_granularity cfg = Some ''selective_both'')
   \<and> (\<not> checkpoint_mlp (MLP_init cfg) \<longrightarrow>
        forward (MLP_init cfg) x = u_forward (MLP_init cfg) x)"
  by (auto simp: MLP_init_def forward_def Let_def)

text \<open>
  Claim C10 on the scenario (no granularity: gate off, \<open>forward\<close> is \<open>_forward\<close>) and on the two selective granularities (gate on).
\<close>

theorem checkpoint_mlp_iff_witness:
  "\<not> checkpoint_mlp (MLP_init scenario_config)
   \<and> forward (MLP_init scenario_config) scenario_input
       = u_forward (MLP_init scenario_config) scenario_input
   \<and> checkpoint_mlp (MLP_init mlp_only_config)
   \<and> checkpoint_mlp (MLP_init both_toggles_config)"
  using checkpoint_mlp_iff[of scenario_config scenario_input]
    checkpoint_mlp_iff[of mlp_only_config scenario_input]
    checkpoint_mlp_iff[of both_toggles_config scenario_input]
  by (simp add: example_defs)

end
